theory Spec2Isabelle
  imports Main
begin

section \<open>The wallet connector, as the provider sees it\<close>

text \<open>
  The provider of \<^verbatim>\<open>ReactiveMidnightWalletContext.tsx\<close> talks to an injected connector
  object (\<^verbatim>\<open>window.midnight[targetWalletName]\<close>). The connector's types come from the
  package \<^verbatim>\<open>@midnight-ntwrk/dapp-connector-api\<close>; the provider reads only
  \<^verbatim>\<open>connector.name\<close> and \<^verbatim>\<open>state.address\<close>, the other fields are carried along.
\<close>

datatype DAppConnectorWalletAPI = WalletAPI nat

record DAppConnectorWalletState =
  address :: string
  coinPublicKey :: string
  encryptionPublicKey :: string

record ServiceUriConfig =
  indexerUri :: string
  indexerWsUri :: string
  proverServerUri :: string
  substrateNodeUri :: string

record DAppConnectorAPI =
  name :: string

text \<open>
  A value a connector promise rejects with, taken to be an object (an \<^verbatim>\<open>APIError\<close> or
  another \<^verbatim>\<open>Error\<close>). The provider reads \<^verbatim>\<open>err.code\<close>,
  \<^verbatim>\<open>err.message\<close> (in the provider with approval polling only when \<^verbatim>\<open>err instanceof Error\<close>) and
  \<^verbatim>\<open>err.reason\<close>; an absent property is \<open>None\<close>. A code is a number or a string
  (\<^verbatim>\<open>code?: number | string\<close>); numeric codes are taken to be integers.
\<close>

datatype js_code = CodeNumber int | CodeString string

record rejection =
  instanceofError :: bool
  message :: "string option"
  reason :: "string option"
  code :: "js_code option"

text \<open>The settled outcome of an awaited promise.\<close>

datatype 'a promise_result = Resolved 'a | Rejected rejection

text \<open>
  What the connector answers during one connection attempt: \<^verbatim>\<open>connector.enable()\<close>,
  \<^verbatim>\<open>enabledApi.state()\<close> and \<^verbatim>\<open>connector.serviceUriConfig()\<close>.
\<close>

record connector_responses =
  enable_result :: "DAppConnectorWalletAPI promise_result"
  state_result :: "DAppConnectorWalletState promise_result"
  serviceUriConfig_result :: "ServiceUriConfig promise_result"

section \<open>JavaScript helpers used by the provider\<close>

text \<open>\<^verbatim>\<open>a || d\<close> on an optional string: the empty string and \<^verbatim>\<open>undefined\<close> are falsy.\<close>

fun orElse :: "string option \<Rightarrow> string \<Rightarrow> string" where
  "orElse None d = d"
| "orElse (Some s) d = (if s = [] then d else s)"

text \<open>Truthiness of \<^verbatim>\<open>string | null\<close> and of \<^verbatim>\<open>number | string | undefined\<close>.\<close>

fun truthy :: "string option \<Rightarrow> bool" where
  "truthy None = False"
| "truthy (Some s) = (s \<noteq> [])"

fun truthy_code :: "js_code option \<Rightarrow> bool" where
  "truthy_code None = False"
| "truthy_code (Some (CodeNumber n)) = (n \<noteq> 0)"
| "truthy_code (Some (CodeString s)) = (s \<noteq> [])"

text \<open>\<^verbatim>\<open>s.includes(p)\<close>: \<open>p\<close> occurs in \<open>s\<close> as a contiguous substring.\<close>

fun str_includes :: "string \<Rightarrow> string \<Rightarrow> bool" where
  "str_includes [] p = (p = [])"
| "str_includes (c # cs) p = (take (length p) (c # cs) = p \<or> str_includes cs p)"

text \<open>Template interpolation \<^verbatim>\<open>${code}\<close>: a number in decimal, a string as it is.\<close>

fun show_nat :: "nat \<Rightarrow> string" where
  "show_nat n =
     (if n < 10 then [char_of (48 + n)]
      else show_nat (n div 10) @ [char_of (48 + n mod 10)])"

declare show_nat.simps [simp del]

definition show_int :: "int \<Rightarrow> string" where
  "show_int i = (if i < 0 then ''-'' @ show_nat (nat (- i)) else show_nat (nat i))"

fun show_code :: "js_code \<Rightarrow> string" where
  "show_code (CodeNumber n) = show_int n"
| "show_code (CodeString s) = s"

text \<open>
  \<^verbatim>\<open>Promise.all([a, b])\<close>: resolved with both values, rejected as soon as one rejects.
  When both reject, JavaScript keeps the rejection that settles first; the model keeps
  the first of the array.
\<close>

fun promise_all2 :: "'a promise_result \<Rightarrow> 'b promise_result \<Rightarrow> ('a \<times> 'b) promise_result" where
  "promise_all2 (Resolved a) (Resolved b) = Resolved (a, b)"
| "promise_all2 (Rejected e) _ = Rejected e"
| "promise_all2 (Resolved a) (Rejected e) = Rejected e"

section \<open>The provider's state\<close>

text \<open>
  The callbacks that \<^verbatim>\<open>setInterval\<close> holds. Each closure is kept with what it captured:
  the state poll captures \<^verbatim>\<open>walletApi\<close> and \<^verbatim>\<open>walletState\<close> of the render that armed
  it, the approval poll captures the connector and its own counter \<^verbatim>\<open>attempts\<close>.
\<close>

datatype interval_callback =
    StatusPoll
  | StatePoll DAppConnectorWalletAPI "DAppConnectorWalletState option"
  | ApprovalPoll DAppConnectorAPI nat

text \<open>
  The eight \<^verbatim>\<open>useState\<close> cells, the three \<^verbatim>\<open>useRef\<close> cells holding interval handles,
  and the runtime's table of live intervals (\<open>timers\<close>) with the next handle to hand out.
  An interval is armed when it is in the table. Handles are positive, hence truthy.
\<close>

record provider_state =
  walletApi :: "DAppConnectorWalletAPI option"
  serviceUris :: "ServiceUriConfig option"
  walletState :: "DAppConnectorWalletState option"
  isConnecting :: bool
  isCheckingStatus :: bool
  error :: "string option"
  infoMessage :: "string option"
  walletName :: "string option"
  statusPollIntervalRef :: "nat option"
  statePollIntervalRef :: "nat option"
  approvalPollIntervalRef :: "nat option"
  timers :: "(nat \<times> interval_callback) list"
  nextTimerId :: nat

definition initial_state :: provider_state where
  "initial_state =
     \<lparr> walletApi = None, serviceUris = None, walletState = None,
       isConnecting = False, isCheckingStatus = True,
       error = None, infoMessage = None, walletName = None,
       statusPollIntervalRef = None, statePollIntervalRef = None,
       approvalPollIntervalRef = None, timers = [], nextTimerId = 1 \<rparr>"

text \<open>\<^verbatim>\<open>const isConnected = !!walletApi\<close>\<close>

definition isConnected :: "provider_state \<Rightarrow> bool" where
  "isConnected st = (walletApi st \<noteq> None)"

definition STATUS_POLLING_INTERVAL_MS :: nat where "STATUS_POLLING_INTERVAL_MS = 3000"
definition STATE_POLLING_INTERVAL_MS :: nat where "STATE_POLLING_INTERVAL_MS = 5000"
definition APPROVAL_POLLING_INTERVAL_MS :: nat where "APPROVAL_POLLING_INTERVAL_MS = 500"
definition APPROVAL_POLLING_TIMEOUT_MS :: nat where "APPROVAL_POLLING_TIMEOUT_MS = 15000"

text \<open>The provider is mounted without the \<^verbatim>\<open>targetWalletName\<close> prop, so the default holds.\<close>

definition targetWalletName :: string where
  "targetWalletName = ''mnLace''"

section \<open>Intervals\<close>

text \<open>
  \<^verbatim>\<open>setInterval\<close> hands out a fresh handle and enters the callback into the table;
  \<^verbatim>\<open>clearInterval\<close> removes the handle. Time itself is not modelled: a firing of a live
  interval is an event, and the periods above do not enter.
\<close>

definition setInterval :: "interval_callback \<Rightarrow> provider_state \<Rightarrow> nat \<times> provider_state" where
  "setInterval cb st =
     (nextTimerId st,
      st\<lparr>timers := timers st @ [(nextTimerId st, cb)], nextTimerId := Suc (nextTimerId st)\<rparr>)"

definition clearInterval :: "nat \<Rightarrow> provider_state \<Rightarrow> provider_state" where
  "clearInterval tid st = st\<lparr>timers := filter (\<lambda>(i, cb). i \<noteq> tid) (timers st)\<rparr>"

definition clearAllIntervals :: "provider_state \<Rightarrow> provider_state" where
  "clearAllIntervals st =
     (let st1 = (case statusPollIntervalRef st of Some t \<Rightarrow> clearInterval t st | None \<Rightarrow> st);
          st2 = (case statePollIntervalRef st1 of Some t \<Rightarrow> clearInterval t st1 | None \<Rightarrow> st1);
          st3 = (case approvalPollIntervalRef st2 of Some t \<Rightarrow> clearInterval t st2 | None \<Rightarrow> st2)
      in st3\<lparr>statusPollIntervalRef := None, statePollIntervalRef := None,
             approvalPollIntervalRef := None\<rparr>)"

section \<open>Establishing a connection\<close>

text \<open>
  Every handler is run to completion: the outcomes of the connector calls it awaits are
  arguments, and the state it returns is the state once its last setter has run.
  A value read from the enclosing render (a stale closure) is read from the argument
  \<open>rendered\<close>, a value written by a setter goes to the state passed along.
\<close>

definition fetchDetails ::
  "DAppConnectorWalletState promise_result \<Rightarrow> ServiceUriConfig promise_result \<Rightarrow>
   provider_state \<Rightarrow> bool \<times> provider_state" where
  "fetchDetails sr ur st =
     (case promise_all2 sr ur of
        Resolved (fetchedState, fetchedUris) \<Rightarrow>
          (True, st\<lparr>walletState := Some fetchedState, serviceUris := Some fetchedUris\<rparr>)
      | Rejected fetchErr \<Rightarrow>
          (False, st\<lparr>error := Some ''Connected, but failed to fetch wallet details.'',
                     walletState := None, serviceUris := None\<rparr>))"

definition connection_error_msg :: "rejection \<Rightarrow> string" where
  "connection_error_msg err =
     orElse (if instanceofError err then message err else Some [])
       (orElse (reason err) ''Unknown connection error'')"

definition isApprovalError :: "js_code option \<Rightarrow> string \<Rightarrow> bool" where
  "isApprovalError c msg = (c = Some (CodeNumber (- 3)) \<or> str_includes msg ''enable() first'')"

definition connection_failed_text :: "string \<Rightarrow> js_code option \<Rightarrow> string" where
  "connection_failed_text msg c =
     ''Connection failed: '' @ msg @
     (case c of
        Some k \<Rightarrow> if truthy_code c then '' (Code: '' @ show_code k @ '')'' else []
      | None \<Rightarrow> [])"

definition establishConnection ::
  "DAppConnectorAPI \<Rightarrow> bool \<Rightarrow> connector_responses \<Rightarrow> provider_state \<Rightarrow>
   bool \<times> provider_state" where
  "establishConnection connector isInitialCheck r st =
     (case enable_result r of
        Resolved enabledApi \<Rightarrow>
          (let st1 = st\<lparr>walletApi := Some enabledApi, walletName := Some (name connector)\<rparr>;
               (detailsFetched, st2) =
                  fetchDetails (state_result r) (serviceUriConfig_result r) st1
           in if detailsFetched then (True, st2\<lparr>error := None, infoMessage := None\<rparr>)
              else (False, st2))
      | Rejected err \<Rightarrow>
          (let c = code err;
               msg = connection_error_msg err;
               st1 = st\<lparr>walletApi := None, serviceUris := None, walletState := None,
                        walletName := None\<rparr>
           in if isApprovalError c msg \<and> \<not> isInitialCheck then (False, st1)
              else if \<not> isInitialCheck
                then (False, st1\<lparr>error := Some (connection_failed_text msg c)\<rparr>)
              else (False, st1)))"

section \<open>Approval polling\<close>

text \<open>
  \<^verbatim>\<open>APPROVAL_POLLING_TIMEOUT_MS / APPROVAL_POLLING_INTERVAL_MS\<close>: the quotient is exact, so
  JavaScript's division and \<open>div\<close> agree.
\<close>

definition maxAttempts :: nat where
  "maxAttempts = APPROVAL_POLLING_TIMEOUT_MS div APPROVAL_POLLING_INTERVAL_MS"

definition startApprovalPolling :: "DAppConnectorAPI \<Rightarrow> provider_state \<Rightarrow> provider_state" where
  "startApprovalPolling connector st =
     (let st1 = clearAllIntervals st;
          st2 = st1\<lparr>infoMessage := Some (''Connection prompt likely appeared in '' @
                   name connector @ ''. Please approve it. Checking status...'')\<rparr>;
          (tid, st3) = setInterval (ApprovalPoll connector 0) st2
      in st3\<lparr>approvalPollIntervalRef := Some tid\<rparr>)"

text \<open>
  \<^verbatim>\<open>attempts++\<close> in the closure of the approval poll \<open>tid\<close>.
\<close>

definition countAttempt :: "nat \<Rightarrow> provider_state \<Rightarrow> provider_state" where
  "countAttempt tid st =
     st\<lparr>timers := map (\<lambda>(i, cb).
            if i = tid
            then (i, case cb of ApprovalPoll connector n \<Rightarrow> ApprovalPoll connector (Suc n)
                     | _ \<Rightarrow> cb)
            else (i, cb))
          (timers st)\<rparr>"

text \<open>
  One firing of the interval \<open>tid\<close> armed by \<open>startApprovalPolling\<close>. An interval that
  is not in the table does not fire. \<open>enabled_result\<close> is what \<^verbatim>\<open>connector.isEnabled()\<close>
  settles to, \<open>r\<close> what the connector answers to the renewed attempt.
\<close>

definition approvalPollCallback ::
  "nat \<Rightarrow> bool promise_result \<Rightarrow> connector_responses \<Rightarrow> provider_state \<Rightarrow> provider_state" where
  "approvalPollCallback tid enabled_result r st =
     (case map_of (timers st) tid of
        Some (ApprovalPoll connector n) \<Rightarrow>
          (let attempts = Suc n;
               st0 = countAttempt tid st
           in if attempts > maxAttempts
              then (clearAllIntervals st0)
                     \<lparr>error := Some ''Connection timed out. Did you approve the request in the wallet?'',
                      infoMessage := None, isConnecting := False\<rparr>
              else (case enabled_result of
                      Resolved enabled \<Rightarrow>
                        if enabled
                        then (let st1 = clearAllIntervals st0;
                                  st2 = st1\<lparr>infoMessage :=
                                          Some ''Approval detected. Finalizing connection...''\<rparr>;
                                  (success, st3) = establishConnection connector False r st2
                              in st3\<lparr>infoMessage := None, isConnecting := False\<rparr>)
                        else st0
                    | Rejected pollErr \<Rightarrow>
                        (clearAllIntervals st0)
                          \<lparr>error := Some ''An error occurred while checking wallet approval status.'',
                           infoMessage := None, isConnecting := False\<rparr>))
      | _ \<Rightarrow> st)"

section \<open>The public actions\<close>

text \<open>
  \<^verbatim>\<open>connectWallet\<close> is a \<^verbatim>\<open>useCallback\<close> closure: \<^verbatim>\<open>isConnecting\<close>, \<^verbatim>\<open>isConnected\<close>
  and \<^verbatim>\<open>error\<close> are the constants of the render that created it (\<open>rendered\<close>), also
  after the \<^verbatim>\<open>await\<close>. \<open>getConnector\<close> is what \<^verbatim>\<open>getConnector()\<close> returns.
\<close>

definition connectWallet ::
  "provider_state \<Rightarrow> DAppConnectorAPI option \<Rightarrow> connector_responses \<Rightarrow>
   provider_state \<Rightarrow> provider_state" where
  "connectWallet rendered getConnector r st =
     (if isConnecting rendered \<or> isConnected rendered then st
      else
        (let st1 = clearAllIntervals (st\<lparr>isConnecting := True, error := None, infoMessage := None\<rparr>)
         in case getConnector of
              None \<Rightarrow>
                st1\<lparr>error := Some (''Wallet connector '' @ [CHR 0x27] @ targetWalletName @
                                    [CHR 0x27] @ '' not found.''),
                    isConnecting := False\<rparr>
            | Some connector \<Rightarrow>
                (let (success, st2) = establishConnection connector False r st1
                 in if \<not> success \<and> \<not> truthy (error rendered)
                    then startApprovalPolling connector st2
                    else st2\<lparr>isConnecting := False\<rparr>)))"

definition disconnectWallet :: "provider_state \<Rightarrow> provider_state" where
  "disconnectWallet st =
     (clearAllIntervals st)
       \<lparr>walletApi := None, serviceUris := None, walletState := None, error := None,
        infoMessage := None, isConnecting := False, isCheckingStatus := False,
        walletName := None\<rparr>"

section \<open>The effects\<close>

text \<open>
  The initial load check: \<^verbatim>\<open>isEnabled().then(...).catch(...).finally(...)\<close>, with
  \<open>enabled_result\<close> the outcome of \<^verbatim>\<open>isEnabled()\<close>.
\<close>

definition initialLoadCheck ::
  "DAppConnectorAPI option \<Rightarrow> bool promise_result \<Rightarrow> connector_responses \<Rightarrow>
   provider_state \<Rightarrow> provider_state" where
  "initialLoadCheck getConnector enabled_result r st =
     (let st1 = st\<lparr>isCheckingStatus := True\<rparr>
      in case getConnector of
           Some connector \<Rightarrow>
             (case enabled_result of
                Resolved enabled \<Rightarrow>
                  (if enabled then snd (establishConnection connector True r st1) else st1)
                    \<lparr>isCheckingStatus := False\<rparr>
              | Rejected err \<Rightarrow> st1\<lparr>isCheckingStatus := False\<rparr>)
         | None \<Rightarrow> st1\<lparr>isCheckingStatus := False\<rparr>)"

text \<open>
  The body of the background polling effect, run after a render whose
  \<^verbatim>\<open>isConnected\<close>, \<^verbatim>\<open>walletApi\<close> or \<^verbatim>\<open>walletState?.address\<close> changed. Its cleanup is
  \<open>clearAllIntervals\<close>.
\<close>

definition backgroundPollingEffect :: "provider_state \<Rightarrow> provider_state \<Rightarrow> provider_state" where
  "backgroundPollingEffect rendered st =
     (let st1 = clearAllIntervals st
      in case walletApi rendered of
           Some api \<Rightarrow>
             (if isConnected rendered
              then (let st2 = st1\<lparr>isCheckingStatus := True\<rparr>;
                        (t1, st3) = setInterval StatusPoll st2;
                        st4 = st3\<lparr>statusPollIntervalRef := Some t1\<rparr>;
                        (t2, st5) = setInterval (StatePoll api (walletState rendered)) st4;
                        st6 = st5\<lparr>statePollIntervalRef := Some t2\<rparr>
                    in st6\<lparr>isCheckingStatus := False\<rparr>)
              else st1\<lparr>isCheckingStatus := False\<rparr>)
         | None \<Rightarrow> st1\<lparr>isCheckingStatus := False\<rparr>)"

text \<open>One firing of the status poll: \<^verbatim>\<open>getConnector()\<close>, then \<^verbatim>\<open>isEnabled()\<close>.\<close>

definition statusPollCallback ::
  "nat \<Rightarrow> DAppConnectorAPI option \<Rightarrow> bool promise_result \<Rightarrow> provider_state \<Rightarrow> provider_state" where
  "statusPollCallback tid getConnector enabled_result st =
     (case map_of (timers st) tid of
        Some StatusPoll \<Rightarrow>
          (case getConnector of
             None \<Rightarrow> disconnectWallet st
           | Some connector \<Rightarrow>
               (case enabled_result of
                  Resolved enabled \<Rightarrow> if \<not> enabled then disconnectWallet st else st
                | Rejected pollError \<Rightarrow> disconnectWallet st))
      | _ \<Rightarrow> st)"

text \<open>One firing of the state poll: \<^verbatim>\<open>currentWalletApi.state()\<close>.\<close>

definition statePollCallback ::
  "nat \<Rightarrow> DAppConnectorWalletState promise_result \<Rightarrow> provider_state \<Rightarrow> provider_state" where
  "statePollCallback tid state_res st =
     (case map_of (timers st) tid of
        Some (StatePoll currentWalletApi cached) \<Rightarrow>
          (case state_res of
             Resolved newState \<Rightarrow>
               if Some (address newState) \<noteq> map_option address cached
               then st\<lparr>walletState := Some newState\<rparr>
               else st
           | Rejected pollError \<Rightarrow> disconnectWallet st)
      | _ \<Rightarrow> st)"

section \<open>The variant without approval polling\<close>

text \<open>
  A second version of the same provider is in the repository. It has no
  \<^verbatim>\<open>infoMessage\<close> cell and no approval interval (its functions never write these two
  fields of the state), it fetches the details inside the same \<^verbatim>\<open>try\<close> as
  \<^verbatim>\<open>enable()\<close>, and it reads \<^verbatim>\<open>err.message\<close> without the \<^verbatim>\<open>instanceof\<close> test.
  Its functions carry the suffix \<open>_alt\<close>.
\<close>

definition connection_error_msg_alt :: "rejection \<Rightarrow> string" where
  "connection_error_msg_alt err =
     orElse (message err) (orElse (reason err) ''Unknown connection error'')"

definition establishConnection_alt ::
  "DAppConnectorAPI \<Rightarrow> bool \<Rightarrow> connector_responses \<Rightarrow> provider_state \<Rightarrow>
   bool \<times> provider_state" where
  "establishConnection_alt connector initialCheck r st =
     (let st0 = st\<lparr>error := None\<rparr>;
          attempt =
            (case enable_result r of
               Resolved enabledApi \<Rightarrow>
                 (case promise_all2 (state_result r) (serviceUriConfig_result r) of
                    Resolved (fetchedState, fetchedUris) \<Rightarrow>
                      Resolved (enabledApi, fetchedState, fetchedUris)
                  | Rejected err \<Rightarrow> Rejected err)
             | Rejected err \<Rightarrow> Rejected err)
      in case attempt of
           Resolved (enabledApi, fetchedState, fetchedUris) \<Rightarrow>
             (True, st0\<lparr>walletApi := Some enabledApi, walletName := Some (name connector),
                        walletState := Some fetchedState, serviceUris := Some fetchedUris,
                        error := None\<rparr>)
         | Rejected err \<Rightarrow>
             (let c = code err;
                  msg = connection_error_msg_alt err;
                  st1 = (if \<not> initialCheck \<and> \<not> isApprovalError c msg
                         then st0\<lparr>error := Some (connection_failed_text msg c)\<rparr>
                         else st0)
              in (False, st1\<lparr>walletApi := None, serviceUris := None, walletState := None,
                             walletName := None\<rparr>)))"

definition connectWallet_alt ::
  "provider_state \<Rightarrow> DAppConnectorAPI option \<Rightarrow> connector_responses \<Rightarrow>
   provider_state \<Rightarrow> provider_state" where
  "connectWallet_alt rendered getConnector r st =
     (if isConnected rendered \<or> isConnecting rendered then st
      else
        (let st1 = st\<lparr>isConnecting := True, error := None\<rparr>
         in case getConnector of
              None \<Rightarrow>
                st1\<lparr>error := Some (''Wallet connector '' @ [CHR 0x27] @ targetWalletName @
                                    [CHR 0x27] @ '' not found.''),
                    isConnecting := False\<rparr>
            | Some connector \<Rightarrow>
                (snd (establishConnection_alt connector False r st1))\<lparr>isConnecting := False\<rparr>))"

definition initialLoadCheck_alt ::
  "DAppConnectorAPI option \<Rightarrow> bool promise_result \<Rightarrow> connector_responses \<Rightarrow>
   provider_state \<Rightarrow> provider_state" where
  "initialLoadCheck_alt getConnector enabled_result r st =
     (let st1 = st\<lparr>isCheckingStatus := True\<rparr>
      in case getConnector of
           Some connector \<Rightarrow>
             (case enabled_result of
                Resolved enabled \<Rightarrow>
                  (if enabled then snd (establishConnection_alt connector True r st1) else st1)
                    \<lparr>isCheckingStatus := False\<rparr>
              | Rejected err \<Rightarrow>
                  st1\<lparr>error := Some ''Could not check initial wallet status.'',
                      isCheckingStatus := False\<rparr>)
         | None \<Rightarrow> st1\<lparr>isCheckingStatus := False\<rparr>)"

section \<open>Reachable states and the interval table\<close>

text \<open>
  The states the provider can be in. Between two \<^verbatim>\<open>await\<close>s a handler runs a stretch of
  synchronous code, and the stretches of different handlers interleave. Every stretch
  is a sequence of setter calls, of \<^verbatim>\<open>clearAllIntervals()\<close>, of the two arming
  sequences (\<open>startApprovalPolling\<close> and the body of the background polling effect, both
  without an \<^verbatim>\<open>await\<close> inside) and of \<^verbatim>\<open>attempts++\<close>. The reachable states are the
  state at mount closed under each of these steps, with any value set, any connector and
  any render a closure may come from; this covers every interleaving. The handlers run
  to completion are listed as well.
\<close>

inductive reachable :: "provider_state \<Rightarrow> bool" where
  mount: "reachable initial_state"
| setWalletApi: "reachable st \<Longrightarrow> reachable (st\<lparr>walletApi := a\<rparr>)"
| setServiceUris: "reachable st \<Longrightarrow> reachable (st\<lparr>serviceUris := u\<rparr>)"
| setWalletState: "reachable st \<Longrightarrow> reachable (st\<lparr>walletState := w\<rparr>)"
| setIsConnecting: "reachable st \<Longrightarrow> reachable (st\<lparr>isConnecting := b\<rparr>)"
| setIsCheckingStatus: "reachable st \<Longrightarrow> reachable (st\<lparr>isCheckingStatus := b\<rparr>)"
| setError: "reachable st \<Longrightarrow> reachable (st\<lparr>error := e\<rparr>)"
| setInfoMessage: "reachable st \<Longrightarrow> reachable (st\<lparr>infoMessage := m\<rparr>)"
| setWalletName: "reachable st \<Longrightarrow> reachable (st\<lparr>walletName := n\<rparr>)"
| cleanup: "reachable st \<Longrightarrow> reachable (clearAllIntervals st)"
| start_approval: "reachable st \<Longrightarrow> reachable (startApprovalPolling connector st)"
| effect: "reachable st \<Longrightarrow> reachable (backgroundPollingEffect rendered st)"
| count: "reachable st \<Longrightarrow> reachable (countAttempt tid st)"
| initial_check: "reachable st \<Longrightarrow> reachable (initialLoadCheck gc er r st)"
| connect: "reachable st \<Longrightarrow> reachable (connectWallet rendered gc r st)"
| disconnect: "reachable st \<Longrightarrow> reachable (disconnectWallet st)"
| approval_poll: "reachable st \<Longrightarrow> reachable (approvalPollCallback tid er r st)"
| status_poll: "reachable st \<Longrightarrow> reachable (statusPollCallback tid gc er st)"
| state_poll: "reachable st \<Longrightarrow> reachable (statePollCallback tid sr st)"

text \<open>What \<open>clearAllIntervals\<close> leaves in the interval table.\<close>

definition remaining_timers :: "provider_state \<Rightarrow> (nat \<times> interval_callback) list" where
  "remaining_timers st =
     filter (\<lambda>(i, cb). Some i \<noteq> approvalPollIntervalRef st)
       (filter (\<lambda>(i, cb). Some i \<noteq> statePollIntervalRef st)
          (filter (\<lambda>(i, cb). Some i \<noteq> statusPollIntervalRef st) (timers st)))"

text \<open>
  The interval table of a reachable state has one of three shapes: empty; the approval
  poll alone; the status poll and the state poll. The refs hold exactly the live handles.
\<close>

definition timers_shape :: "provider_state \<Rightarrow> bool" where
  "timers_shape st \<longleftrightarrow>
     (timers st = [] \<and> statusPollIntervalRef st = None \<and> statePollIntervalRef st = None \<and>
      approvalPollIntervalRef st = None) \<or>
     (\<exists>tid c n. timers st = [(tid, ApprovalPoll c n)] \<and> approvalPollIntervalRef st = Some tid \<and>
        statusPollIntervalRef st = None \<and> statePollIntervalRef st = None) \<or>
     (\<exists>t1 t2 api ws. t1 \<noteq> t2 \<and> timers st = [(t1, StatusPoll), (t2, StatePoll api ws)] \<and>
        statusPollIntervalRef st = Some t1 \<and> statePollIntervalRef st = Some t2 \<and>
        approvalPollIntervalRef st = None)"

text \<open>The approval poll \<open>tid\<close> is the only live interval, with \<open>n\<close> attempts counted.\<close>

definition approval_armed :: "nat \<Rightarrow> DAppConnectorAPI \<Rightarrow> nat \<Rightarrow> provider_state \<Rightarrow> bool" where
  "approval_armed tid c n st \<longleftrightarrow>
     timers st = [(tid, ApprovalPoll c n)] \<and> approvalPollIntervalRef st = Some tid \<and>
     statusPollIntervalRef st = None \<and> statePollIntervalRef st = None"

text \<open>Which kinds of interval are live.\<close>

definition approvalArmed :: "provider_state \<Rightarrow> bool" where
  "approvalArmed st = list_ex (\<lambda>(i, cb). case cb of ApprovalPoll c n \<Rightarrow> True | _ \<Rightarrow> False) (timers st)"

definition statusArmed :: "provider_state \<Rightarrow> bool" where
  "statusArmed st = list_ex (\<lambda>(i, cb). case cb of StatusPoll \<Rightarrow> True | _ \<Rightarrow> False) (timers st)"

definition stateArmed :: "provider_state \<Rightarrow> bool" where
  "stateArmed st = list_ex (\<lambda>(i, cb). case cb of StatePoll a w \<Rightarrow> True | _ \<Rightarrow> False) (timers st)"

section \<open>Sample connectors and answers\<close>

definition lace :: DAppConnectorAPI where
  "lace = \<lparr>name = ''mnLace''\<rparr>"

definition account1 :: DAppConnectorWalletState where
  "account1 = \<lparr>address = ''addr1'', coinPublicKey = ''cpk1'', encryptionPublicKey = ''epk1''\<rparr>"

definition account2 :: DAppConnectorWalletState where
  "account2 = \<lparr>address = ''addr2'', coinPublicKey = ''cpk2'', encryptionPublicKey = ''epk2''\<rparr>"

definition uris1 :: ServiceUriConfig where
  "uris1 = \<lparr>indexerUri = ''http://indexer'', indexerWsUri = ''ws://indexer'',
            proverServerUri = ''http://prover'', substrateNodeUri = ''http://node''\<rparr>"

definition approval_pending :: rejection where
  "approval_pending =
     \<lparr>instanceofError = True, message = Some ''Request pending'', reason = None,
      code = Some (CodeNumber (- 3))\<rparr>"

definition user_refused :: rejection where
  "user_refused =
     \<lparr>instanceofError = True, message = Some ''User rejected'', reason = None, code = None\<rparr>"

definition network_down :: rejection where
  "network_down =
     \<lparr>instanceofError = True, message = Some ''Network error'', reason = None, code = None\<rparr>"

definition answers_ok :: connector_responses where
  "answers_ok =
     \<lparr>enable_result = Resolved (WalletAPI 1), state_result = Resolved account1,
      serviceUriConfig_result = Resolved uris1\<rparr>"

definition answers_pending :: connector_responses where
  "answers_pending = answers_ok\<lparr>enable_result := Rejected approval_pending\<rparr>"

definition answers_refused :: connector_responses where
  "answers_refused = answers_ok\<lparr>enable_result := Rejected user_refused\<rparr>"

definition answers_no_details :: connector_responses where
  "answers_no_details = answers_ok\<lparr>state_result := Rejected network_down\<rparr>"

text \<open>
  The state after mounting with the wallet not yet enabled, both effects run, and the
  same state while a manual attempt is in flight.
\<close>

definition idle_state :: provider_state where
  "idle_state =
     backgroundPollingEffect (initialLoadCheck (Some lace) (Resolved False) answers_ok initial_state)
       (initialLoadCheck (Some lace) (Resolved False) answers_ok initial_state)"

definition connecting_state :: provider_state where
  "connecting_state = idle_state\<lparr>isConnecting := True\<rparr>"

text \<open>Connected with both background polls armed, and waiting for the user's approval.\<close>

definition connected_state :: provider_state where
  "connected_state =
     backgroundPollingEffect (connectWallet idle_state (Some lace) answers_ok idle_state)
       (connectWallet idle_state (Some lace) answers_ok idle_state)"

definition awaiting_state :: provider_state where
  "awaiting_state = connectWallet idle_state (Some lace) answers_pending idle_state"

text \<open>
  A run of firings of the approval poll \<open>tid\<close>, one connector answer to
  \<^verbatim>\<open>isEnabled()\<close> per firing.
\<close>

fun approvalPolls ::
  "nat \<Rightarrow> bool promise_result list \<Rightarrow> connector_responses \<Rightarrow> provider_state \<Rightarrow> provider_state" where
  "approvalPolls tid [] r st = st"
| "approvalPolls tid (e # es) r st = approvalPolls tid es r (approvalPollCallback tid e r st)"

text \<open>Polling is over: the error is shown, nothing is armed, the spinner is off.\<close>

definition polling_ended_with :: "string \<Rightarrow> provider_state \<Rightarrow> bool" where
  "polling_ended_with msg st \<longleftrightarrow>
     error st = Some msg \<and> infoMessage st = None \<and> \<not> isConnecting st \<and> timers st = [] \<and>
     statusPollIntervalRef st = None \<and> statePollIntervalRef st = None \<and>
     approvalPollIntervalRef st = None"

text \<open>The state after a forced disconnect, as far as the session goes.\<close>

definition fully_reset :: "provider_state \<Rightarrow> bool" where
  "fully_reset st \<longleftrightarrow>
     walletApi st = None \<and> walletState st = None \<and> serviceUris st = None \<and>
     walletName st = None \<and> \<not> isConnecting st \<and> timers st = [] \<and>
     statusPollIntervalRef st = None \<and> statePollIntervalRef st = None \<and>
     approvalPollIntervalRef st = None"

text \<open>A manual attempt that found no connector: the error is on screen.\<close>

definition not_found_state :: provider_state where
  "not_found_state = connectWallet idle_state None answers_ok idle_state"

section \<open>The handlers as equations\<close>

lemma clear_one_frame:
  "(case ref of Some t \<Rightarrow> clearInterval t st | None \<Rightarrow> st) =
     st\<lparr>timers := filter (\<lambda>(i, cb). Some i \<noteq> ref) (timers st)\<rparr>"
  by (cases ref) (simp_all add: clearInterval_def)

lemma clearAllIntervals_eq:
  "clearAllIntervals st =
     st\<lparr>timers := remaining_timers st, statusPollIntervalRef := None,
        statePollIntervalRef := None, approvalPollIntervalRef := None\<rparr>"
  unfolding remaining_timers_def clearAllIntervals_def Let_def clear_one_frame
  by simp

lemma remaining_timers_shape:
  "timers_shape st \<Longrightarrow> remaining_timers st = []"
  unfolding remaining_timers_def timers_shape_def
  by auto

lemma remaining_timers_cells [simp]:
  "remaining_timers (st\<lparr>walletApi := a\<rparr>) = remaining_timers st"
  "remaining_timers (st\<lparr>serviceUris := b\<rparr>) = remaining_timers st"
  "remaining_timers (st\<lparr>walletState := c\<rparr>) = remaining_timers st"
  "remaining_timers (st\<lparr>isConnecting := d\<rparr>) = remaining_timers st"
  "remaining_timers (st\<lparr>isCheckingStatus := e\<rparr>) = remaining_timers st"
  "remaining_timers (st\<lparr>error := f\<rparr>) = remaining_timers st"
  "remaining_timers (st\<lparr>infoMessage := g\<rparr>) = remaining_timers st"
  "remaining_timers (st\<lparr>walletName := h\<rparr>) = remaining_timers st"
  by (simp_all add: remaining_timers_def)

lemma startApprovalPolling_eq:
  "startApprovalPolling c st =
     st\<lparr>infoMessage := Some (''Connection prompt likely appeared in '' @ name c @
            ''. Please approve it. Checking status...''),
        statusPollIntervalRef := None, statePollIntervalRef := None,
        approvalPollIntervalRef := Some (nextTimerId st),
        timers := remaining_timers st @ [(nextTimerId st, ApprovalPoll c 0)],
        nextTimerId := Suc (nextTimerId st)\<rparr>"
  by (simp add: startApprovalPolling_def clearAllIntervals_eq setInterval_def)

lemma disconnectWallet_eq:
  "disconnectWallet st =
     st\<lparr>walletApi := None, serviceUris := None, walletState := None, error := None,
        infoMessage := None, isConnecting := False, isCheckingStatus := False,
        walletName := None,
        statusPollIntervalRef := None, statePollIntervalRef := None,
        approvalPollIntervalRef := None, timers := remaining_timers st\<rparr>"
  by (simp add: disconnectWallet_def clearAllIntervals_eq)

lemma backgroundPollingEffect_eq:
  "backgroundPollingEffect rendered st =
     (case walletApi rendered of
        Some api \<Rightarrow>
          st\<lparr>isCheckingStatus := False,
             statusPollIntervalRef := Some (nextTimerId st),
             statePollIntervalRef := Some (Suc (nextTimerId st)),
             approvalPollIntervalRef := None,
             timers := remaining_timers st @
               [(nextTimerId st, StatusPoll),
                (Suc (nextTimerId st), StatePoll api (walletState rendered))],
             nextTimerId := Suc (Suc (nextTimerId st))\<rparr>
      | None \<Rightarrow>
          st\<lparr>isCheckingStatus := False,
             statusPollIntervalRef := None, statePollIntervalRef := None,
             approvalPollIntervalRef := None, timers := remaining_timers st\<rparr>)"
  by (simp add: backgroundPollingEffect_def clearAllIntervals_eq setInterval_def isConnected_def
      split: option.splits)

lemma timers_shape_cells [simp]:
  "timers_shape (st\<lparr>walletApi := a\<rparr>) = timers_shape st"
  "timers_shape (st\<lparr>serviceUris := b\<rparr>) = timers_shape st"
  "timers_shape (st\<lparr>walletState := c\<rparr>) = timers_shape st"
  "timers_shape (st\<lparr>isConnecting := d\<rparr>) = timers_shape st"
  "timers_shape (st\<lparr>isCheckingStatus := e\<rparr>) = timers_shape st"
  "timers_shape (st\<lparr>error := f\<rparr>) = timers_shape st"
  "timers_shape (st\<lparr>infoMessage := g\<rparr>) = timers_shape st"
  "timers_shape (st\<lparr>walletName := h\<rparr>) = timers_shape st"
  "timers_shape (st\<lparr>nextTimerId := k\<rparr>) = timers_shape st"
  by (simp_all add: timers_shape_def)

lemma establishConnection_resolved:
  assumes "enable_result r = Resolved api" "state_result r = Resolved ws"
    "serviceUriConfig_result r = Resolved u"
  shows "establishConnection c i r st =
     (True, st\<lparr>walletApi := Some api, walletName := Some (name c), walletState := Some ws,
               serviceUris := Some u, error := None, infoMessage := None\<rparr>)"
  using assms by (simp add: establishConnection_def fetchDetails_def)

lemma establishConnection_details_failed:
  assumes "enable_result r = Resolved api"
    "promise_all2 (state_result r) (serviceUriConfig_result r) = Rejected e"
  shows "establishConnection c i r st =
     (False, st\<lparr>walletApi := Some api, walletName := Some (name c),
                error := Some ''Connected, but failed to fetch wallet details.'',
                walletState := None, serviceUris := None\<rparr>)"
  using assms by (simp add: establishConnection_def fetchDetails_def)

lemma establishConnection_rejected:
  assumes "enable_result r = Rejected err"
  shows "establishConnection c i r st =
     (False, st\<lparr>walletApi := None, serviceUris := None, walletState := None, walletName := None,
                error := (if \<not> i \<and> \<not> isApprovalError (code err) (connection_error_msg err)
                          then Some (connection_failed_text (connection_error_msg err) (code err))
                          else error st)\<rparr>)"
  using assms by (simp add: establishConnection_def Let_def)

lemma establishConnection_cases:
  obtains (resolved) api ws u where "enable_result r = Resolved api"
      "state_result r = Resolved ws" "serviceUriConfig_result r = Resolved u"
  | (details_failed) api e where "enable_result r = Resolved api"
      "promise_all2 (state_result r) (serviceUriConfig_result r) = Rejected e"
  | (rejected) err where "enable_result r = Rejected err"
proof (cases "enable_result r")
  case (Resolved api)
  then show ?thesis
    by (cases "state_result r"; cases "serviceUriConfig_result r")
       (auto intro: resolved details_failed)
next
  case (Rejected err)
  then show ?thesis by (rule rejected)
qed

lemma establishConnection_timers [simp]:
  "timers (snd (establishConnection c i r st)) = timers st"
  "statusPollIntervalRef (snd (establishConnection c i r st)) = statusPollIntervalRef st"
  "statePollIntervalRef (snd (establishConnection c i r st)) = statePollIntervalRef st"
  "approvalPollIntervalRef (snd (establishConnection c i r st)) = approvalPollIntervalRef st"
  "nextTimerId (snd (establishConnection c i r st)) = nextTimerId st"
  by (cases r rule: establishConnection_cases;
      simp add: establishConnection_resolved establishConnection_details_failed
        establishConnection_rejected)+

lemma timers_shape_establishConnection [simp]:
  "timers_shape (snd (establishConnection c i r st)) = timers_shape st"
  by (simp add: timers_shape_def)

lemma remaining_timers_establishConnection [simp]:
  "remaining_timers (snd (establishConnection c i r st)) = remaining_timers st"
  by (simp add: remaining_timers_def)

lemma timers_shape_clearAllIntervals:
  "timers_shape st \<Longrightarrow> timers_shape (clearAllIntervals st)"
  by (simp add: clearAllIntervals_eq remaining_timers_shape timers_shape_def)

lemma timers_shape_startApprovalPolling:
  "timers_shape st \<Longrightarrow> timers_shape (startApprovalPolling c st)"
  by (simp add: startApprovalPolling_eq remaining_timers_shape timers_shape_def)

lemma timers_shape_disconnectWallet:
  "timers_shape st \<Longrightarrow> timers_shape (disconnectWallet st)"
  by (simp add: disconnectWallet_eq remaining_timers_shape timers_shape_def)

lemma timers_shape_backgroundPollingEffect:
  "timers_shape st \<Longrightarrow> timers_shape (backgroundPollingEffect rendered st)"
  by (simp add: backgroundPollingEffect_eq remaining_timers_shape timers_shape_def
      split: option.splits)

lemma timers_shape_initialLoadCheck:
  "timers_shape st \<Longrightarrow> timers_shape (initialLoadCheck gc er r st)"
  by (simp add: initialLoadCheck_def Let_def split: option.splits promise_result.splits)

lemma timers_shape_connectWallet:
  assumes "timers_shape st"
  shows "timers_shape (connectWallet rendered gc r st)"
proof -
  let ?st1 = "clearAllIntervals (st\<lparr>isConnecting := True, error := None, infoMessage := None\<rparr>)"
  have s1: "timers_shape ?st1"
    using assms by (simp add: timers_shape_clearAllIntervals)
  have s2: "timers_shape (snd (establishConnection c False r ?st1))" for c
    using s1 by simp
  show ?thesis
    using assms s1 s2
    by (simp add: connectWallet_def Let_def case_prod_beta timers_shape_startApprovalPolling
        split: option.splits)
qed

lemma approval_armedI:
  assumes "timers_shape st" "map_of (timers st) tid = Some (ApprovalPoll c n)"
  shows "approval_armed tid c n st"
  using assms by (auto simp add: timers_shape_def approval_armed_def split: if_splits)

lemma approval_armed_cells [simp]:
  "approval_armed tid c n (st\<lparr>walletApi := a\<rparr>) = approval_armed tid c n st"
  "approval_armed tid c n (st\<lparr>serviceUris := b\<rparr>) = approval_armed tid c n st"
  "approval_armed tid c n (st\<lparr>walletState := w\<rparr>) = approval_armed tid c n st"
  "approval_armed tid c n (st\<lparr>isConnecting := d\<rparr>) = approval_armed tid c n st"
  "approval_armed tid c n (st\<lparr>isCheckingStatus := e\<rparr>) = approval_armed tid c n st"
  "approval_armed tid c n (st\<lparr>error := f\<rparr>) = approval_armed tid c n st"
  "approval_armed tid c n (st\<lparr>infoMessage := g\<rparr>) = approval_armed tid c n st"
  "approval_armed tid c n (st\<lparr>walletName := h\<rparr>) = approval_armed tid c n st"
  by (simp_all add: approval_armed_def)

text \<open>The four ways one firing of the approval poll can go, as equations.\<close>

lemma approvalPollCallback_timeout:
  assumes "approval_armed tid c n st" "maxAttempts < Suc n"
  shows "approvalPollCallback tid er r st =
     st\<lparr>timers := [], approvalPollIntervalRef := None,
        error := Some ''Connection timed out. Did you approve the request in the wallet?'',
        infoMessage := None, isConnecting := False\<rparr>"
  using assms
  by (simp add: approvalPollCallback_def countAttempt_def approval_armed_def clearAllIntervals_eq
      remaining_timers_def Let_def)

lemma approvalPollCallback_not_enabled:
  assumes "approval_armed tid c n st" "Suc n \<le> maxAttempts"
  shows "approvalPollCallback tid (Resolved False) r st =
     st\<lparr>timers := [(tid, ApprovalPoll c (Suc n))]\<rparr>"
  using assms
  by (simp add: approvalPollCallback_def countAttempt_def approval_armed_def Let_def)

lemma approvalPollCallback_rejected:
  assumes "approval_armed tid c n st" "Suc n \<le> maxAttempts"
  shows "approvalPollCallback tid (Rejected e) r st =
     st\<lparr>timers := [], approvalPollIntervalRef := None,
        error := Some ''An error occurred while checking wallet approval status.'',
        infoMessage := None, isConnecting := False\<rparr>"
  using assms
  by (simp add: approvalPollCallback_def countAttempt_def approval_armed_def clearAllIntervals_eq
      remaining_timers_def Let_def)

lemma approvalPollCallback_enabled:
  assumes "approval_armed tid c n st" "Suc n \<le> maxAttempts"
  shows "approvalPollCallback tid (Resolved True) r st =
     (snd (establishConnection c False r
        (st\<lparr>timers := [], statusPollIntervalRef := None, statePollIntervalRef := None,
            approvalPollIntervalRef := None,
            infoMessage := Some ''Approval detected. Finalizing connection...''\<rparr>)))
       \<lparr>infoMessage := None, isConnecting := False\<rparr>"
  using assms
  by (simp add: approvalPollCallback_def countAttempt_def approval_armed_def clearAllIntervals_eq
      remaining_timers_def Let_def case_prod_beta)

lemma approvalPollCallback_not_armed:
  assumes "\<forall>c n. map_of (timers st) tid \<noteq> Some (ApprovalPoll c n)"
  shows "approvalPollCallback tid er r st = st"
  using assms
  by (simp add: approvalPollCallback_def split: option.splits interval_callback.splits)

lemma timers_shape_approvalPollCallback:
  assumes "timers_shape st"
  shows "timers_shape (approvalPollCallback tid er r st)"
proof (cases "\<exists>c n. map_of (timers st) tid = Some (ApprovalPoll c n)")
  case False
  then show ?thesis
    using assms by (simp add: approvalPollCallback_not_armed)
next
  case True
  then obtain c n where "map_of (timers st) tid = Some (ApprovalPoll c n)"
    by blast
  with assms have armed: "approval_armed tid c n st"
    by (rule approval_armedI)
  show ?thesis
  proof (cases "Suc n \<le> maxAttempts")
    case False
    with armed show ?thesis
      by (simp add: approvalPollCallback_timeout timers_shape_def approval_armed_def)
  next
    case True
    show ?thesis
    proof (cases er)
      case (Rejected e)
      with armed True show ?thesis
        by (simp add: approvalPollCallback_rejected timers_shape_def approval_armed_def)
    next
      case (Resolved enabled)
      with armed True show ?thesis
        by (cases enabled)
           (simp_all add: approvalPollCallback_enabled approvalPollCallback_not_enabled
              timers_shape_def approval_armed_def)
    qed
  qed
qed

lemma timers_shape_statusPollCallback:
  "timers_shape st \<Longrightarrow> timers_shape (statusPollCallback tid gc er st)"
  by (simp add: statusPollCallback_def timers_shape_disconnectWallet
      split: option.splits interval_callback.splits promise_result.splits)

lemma timers_shape_statePollCallback:
  "timers_shape st \<Longrightarrow> timers_shape (statePollCallback tid sr st)"
  by (simp add: statePollCallback_def timers_shape_disconnectWallet
      split: option.splits interval_callback.splits promise_result.splits)

lemma timers_shape_countAttempt:
  "timers_shape st \<Longrightarrow> timers_shape (countAttempt tid st)"
  by (auto simp add: timers_shape_def countAttempt_def)

lemma reachable_timers_shape: "reachable st \<Longrightarrow> timers_shape st"
proof (induction rule: reachable.induct)
  case mount
  show ?case by (simp add: timers_shape_def initial_state_def)
qed (simp_all add: timers_shape_initialLoadCheck timers_shape_backgroundPollingEffect
      timers_shape_clearAllIntervals timers_shape_connectWallet timers_shape_disconnectWallet
      timers_shape_approvalPollCallback timers_shape_statusPollCallback
      timers_shape_statePollCallback timers_shape_startApprovalPolling
      timers_shape_countAttempt)

section \<open>The sample states\<close>

lemma idle_state_eq:
  "idle_state = initial_state\<lparr>isCheckingStatus := False\<rparr>"
  by (simp add: idle_state_def initialLoadCheck_def backgroundPollingEffect_eq initial_state_def
      remaining_timers_def)

lemma reachable_idle_state: "reachable idle_state"
  unfolding idle_state_def by (intro reachable.intros)

lemma reachable_connected_state: "reachable connected_state"
  unfolding connected_state_def by (intro reachable.intros reachable_idle_state)

lemma reachable_awaiting_state: "reachable awaiting_state"
  unfolding awaiting_state_def by (intro reachable.intros reachable_idle_state)

lemma connected_state_eq:
  "connected_state =
     \<lparr> walletApi = Some (WalletAPI 1), serviceUris = Some uris1, walletState = Some account1,
       isConnecting = False, isCheckingStatus = False,
       error = None, infoMessage = None, walletName = Some ''mnLace'',
       statusPollIntervalRef = Some 1, statePollIntervalRef = Some 2,
       approvalPollIntervalRef = None,
       timers = [(1, StatusPoll), (2, StatePoll (WalletAPI 1) (Some account1))],
       nextTimerId = 3 \<rparr>"
  by (simp add: connected_state_def connectWallet_def idle_state_eq initial_state_def
      isConnected_def clearAllIntervals_eq remaining_timers_def answers_ok_def
      establishConnection_resolved backgroundPollingEffect_eq lace_def)

lemma awaiting_state_eq:
  "awaiting_state =
     \<lparr> walletApi = None, serviceUris = None, walletState = None,
       isConnecting = True, isCheckingStatus = False,
       error = None,
       infoMessage = Some ''Connection prompt likely appeared in mnLace. Please approve it. Checking status...'',
       walletName = None,
       statusPollIntervalRef = None, statePollIntervalRef = None,
       approvalPollIntervalRef = Some 1,
       timers = [(1, ApprovalPoll lace 0)],
       nextTimerId = 2 \<rparr>"
  by (simp add: awaiting_state_def connectWallet_def idle_state_eq initial_state_def
      isConnected_def clearAllIntervals_eq remaining_timers_def answers_pending_def answers_ok_def
      establishConnection_rejected startApprovalPolling_eq lace_def approval_pending_def
      isApprovalError_def)

section \<open>Manual connect is ignored while connecting or connected\<close>

text \<open>
  Claim C8. Calling \<^verbatim>\<open>connectWallet()\<close> from a render in which \<^verbatim>\<open>isConnecting\<close> or
  \<^verbatim>\<open>isConnected\<close> is true returns at once: the whole state, with every exposed field
  and every timer, is the state before the call, whatever the connector would answer.
  This holds in both versions of the provider.
\<close>

theorem connectWallet_noop_when_busy:
  assumes "isConnecting rendered \<or> isConnected rendered"
  shows "connectWallet rendered getConnector r st = st \<and>
         connectWallet_alt rendered getConnector r st = st"
  using assms by (auto simp add: connectWallet_def connectWallet_alt_def)

theorem connectWallet_noop_when_busy_witness:
  "isConnecting connecting_state \<and>
   connectWallet connecting_state (Some lace) answers_ok connecting_state = connecting_state \<and>
   connectWallet_alt connecting_state (Some lace) answers_ok connecting_state = connecting_state"
proof -
  have busy: "isConnecting connecting_state"
    by (simp add: connecting_state_def)
  then have "isConnecting connecting_state \<or> isConnected connecting_state"
    by simp
  from connectWallet_noop_when_busy [OF this, of "Some lace" answers_ok connecting_state] busy
  show ?thesis by simp
qed

section \<open>Approval polling and background polling exclude each other\<close>

text \<open>
  Claim C9. In every reachable state the approval poll is never live together with the
  status poll or the state poll. The two operations that arm intervals clear all of them
  first: after \<^verbatim>\<open>_startApprovalPolling\<close> the table holds the new approval poll alone, and
  after the background polling effect it holds the new status and state polls alone (or
  nothing, when the render is not connected).
\<close>

theorem approval_exclusive_of_background_polls:
  assumes "reachable st"
  shows "\<not> (approvalArmed st \<and> (statusArmed st \<or> stateArmed st)) \<and>
         timers (startApprovalPolling c st) = [(nextTimerId st, ApprovalPoll c 0)] \<and>
         timers (backgroundPollingEffect rendered st) =
           (case walletApi rendered of
              Some api \<Rightarrow> [(nextTimerId st, StatusPoll),
                            (Suc (nextTimerId st), StatePoll api (walletState rendered))]
            | None \<Rightarrow> [])"
proof -
  from assms have shape: "timers_shape st"
    by (rule reachable_timers_shape)
  then have "\<not> (approvalArmed st \<and> (statusArmed st \<or> stateArmed st))"
    by (auto simp add: timers_shape_def approvalArmed_def statusArmed_def stateArmed_def)
  moreover from shape have "remaining_timers st = []"
    by (rule remaining_timers_shape)
  ultimately show ?thesis
    by (simp add: startApprovalPolling_eq backgroundPollingEffect_eq split: option.splits)
qed

theorem approval_exclusive_of_background_polls_witness:
  "approvalArmed awaiting_state \<and> \<not> statusArmed awaiting_state \<and> \<not> stateArmed awaiting_state \<and>
   \<not> approvalArmed connected_state \<and> statusArmed connected_state \<and> stateArmed connected_state \<and>
   timers (startApprovalPolling lace connected_state) = [(3, ApprovalPoll lace 0)] \<and>
   timers (backgroundPollingEffect connected_state awaiting_state) =
     [(2, StatusPoll), (3, StatePoll (WalletAPI 1) (Some account1))]"
proof -
  note a = approval_exclusive_of_background_polls [OF reachable_connected_state, of lace connected_state]
  note b = approval_exclusive_of_background_polls [OF reachable_awaiting_state, of lace connected_state]
  have "approvalArmed awaiting_state" "statusArmed connected_state" "stateArmed connected_state"
    by (simp_all add: awaiting_state_eq connected_state_eq approvalArmed_def statusArmed_def
        stateArmed_def)
  with a b show ?thesis
    by (simp add: awaiting_state_eq connected_state_eq)
qed

section \<open>Approval polling gives up\<close>

lemma maxAttempts_eq: "maxAttempts = 30"
  by (simp add: maxAttempts_def APPROVAL_POLLING_TIMEOUT_MS_def APPROVAL_POLLING_INTERVAL_MS_def)

lemma approvalPolls_append:
  "approvalPolls tid (es @ fs) r st = approvalPolls tid fs r (approvalPolls tid es r st)"
  by (induction es arbitrary: st) simp_all

lemma approvalPolls_no_timers:
  "timers st = [] \<Longrightarrow> approvalPolls tid es r st = st"
  by (induction es) (simp_all add: approvalPollCallback_not_armed)

lemma approval_armed_timers:
  "approval_armed tid c n st \<Longrightarrow> st\<lparr>timers := [(tid, ApprovalPoll c n)]\<rparr> = st"
  by (cases st) (simp add: approval_armed_def)

lemma approval_armed_next:
  "approval_armed tid c n st \<Longrightarrow>
   approval_armed tid c m (st\<lparr>timers := [(tid, ApprovalPoll c m)]\<rparr>)"
  by (simp add: approval_armed_def)

lemma approvalPolls_not_enabled:
  assumes "approval_armed tid c n st" "n + k \<le> maxAttempts"
  shows "approvalPolls tid (replicate k (Resolved False)) r st =
         st\<lparr>timers := [(tid, ApprovalPoll c (n + k))]\<rparr>"
  using assms
proof (induction k arbitrary: n st)
  case 0
  then show ?case by (simp add: approval_armed_timers)
next
  case (Suc k)
  from Suc.prems have step: "approvalPollCallback tid (Resolved False) r st =
      st\<lparr>timers := [(tid, ApprovalPoll c (Suc n))]\<rparr>"
    by (simp add: approvalPollCallback_not_enabled)
  from Suc.prems have "approval_armed tid c (Suc n) (st\<lparr>timers := [(tid, ApprovalPoll c (Suc n))]\<rparr>)"
    by (simp add: approval_armed_next)
  moreover from Suc.prems have "Suc n + k \<le> maxAttempts" by simp
  ultimately show ?case
    using Suc.IH [of "Suc n" "st\<lparr>timers := [(tid, ApprovalPoll c (Suc n))]\<rparr>"] step
    by simp
qed

lemma approvalPolls_timed_out:
  assumes "approval_armed tid c 0 st" "maxAttempts < k"
  shows "approvalPolls tid (replicate k (Resolved False)) r st =
     st\<lparr>timers := [], approvalPollIntervalRef := None,
        error := Some ''Connection timed out. Did you approve the request in the wallet?'',
        infoMessage := None, isConnecting := False\<rparr>"
proof -
  from assms(2) obtain j where k: "k = maxAttempts + Suc j"
    by (metis less_iff_Suc_add add_Suc_right)
  let ?s = "st\<lparr>timers := [(tid, ApprovalPoll c maxAttempts)]\<rparr>"
  have first: "approvalPolls tid (replicate maxAttempts (Resolved False)) r st = ?s"
    using approvalPolls_not_enabled [OF assms(1), of maxAttempts r] by simp
  have armed: "approval_armed tid c maxAttempts ?s"
    using assms(1) by (rule approval_armed_next)
  have "approvalPolls tid (replicate k (Resolved False)) r st =
      approvalPolls tid (replicate j (Resolved False)) r
        (approvalPollCallback tid (Resolved False) r ?s)"
    unfolding k replicate_add approvalPolls_append first by simp
  also have "approvalPollCallback tid (Resolved False) r ?s =
      ?s\<lparr>timers := [], approvalPollIntervalRef := None,
         error := Some ''Connection timed out. Did you approve the request in the wallet?'',
         infoMessage := None, isConnecting := False\<rparr>"
    using armed by (rule approvalPollCallback_timeout) simp
  finally show ?thesis
    by (simp add: approvalPolls_no_timers)
qed

lemma startApprovalPolling_armed:
  "timers_shape st \<Longrightarrow> approval_armed (nextTimerId st) c 0 (startApprovalPolling c st)"
  by (simp add: startApprovalPolling_eq remaining_timers_shape approval_armed_def)

text \<open>
  Claim C5. The bound is \<^verbatim>\<open>APPROVAL_POLLING_TIMEOUT_MS / APPROVAL_POLLING_INTERVAL_MS\<close>,
  that is 30. Started from a reachable state, while \<^verbatim>\<open>isEnabled()\<close> keeps answering
  false the first 30 firings only count (the poll stays armed); any longer run ends with
  the time-out message as the error, no info message, \<^verbatim>\<open>isConnecting\<close> false and
  no interval left. A firing whose \<^verbatim>\<open>isEnabled()\<close> throws, before the bound, ends
  the same way with the message of the failed check.
\<close>

theorem approval_polling_ends_in_error:
  assumes "reachable st"
  shows "maxAttempts = 30 \<and>
    (k \<le> maxAttempts \<longrightarrow>
       approvalPolls (nextTimerId st) (replicate k (Resolved False)) r (startApprovalPolling c st) =
         (startApprovalPolling c st)\<lparr>timers := [(nextTimerId st, ApprovalPoll c k)]\<rparr>) \<and>
    (maxAttempts < k \<longrightarrow>
       polling_ended_with ''Connection timed out. Did you approve the request in the wallet?''
         (approvalPolls (nextTimerId st) (replicate k (Resolved False)) r
            (startApprovalPolling c st))) \<and>
    (map_of (timers st) tid = Some (ApprovalPoll c' n) \<and> n < maxAttempts \<longrightarrow>
       polling_ended_with ''An error occurred while checking wallet approval status.''
         (approvalPollCallback tid (Rejected e) r st))"
proof -
  from assms have shape: "timers_shape st"
    by (rule reachable_timers_shape)
  then have armed: "approval_armed (nextTimerId st) c 0 (startApprovalPolling c st)"
    by (rule startApprovalPolling_armed)
  have within: "approvalPolls (nextTimerId st) (replicate k (Resolved False)) r
        (startApprovalPolling c st) =
      (startApprovalPolling c st)\<lparr>timers := [(nextTimerId st, ApprovalPoll c k)]\<rparr>"
    if "k \<le> maxAttempts"
    using approvalPolls_not_enabled [OF armed, of k r] that by simp
  have beyond: "polling_ended_with
      ''Connection timed out. Did you approve the request in the wallet?''
      (approvalPolls (nextTimerId st) (replicate k (Resolved False)) r
         (startApprovalPolling c st))"
    if "maxAttempts < k"
    using armed that
    by (simp add: approvalPolls_timed_out polling_ended_with_def approval_armed_def)
  have thrown: "polling_ended_with ''An error occurred while checking wallet approval status.''
      (approvalPollCallback tid (Rejected e) r st)"
    if "map_of (timers st) tid = Some (ApprovalPoll c' n)" "n < maxAttempts"
  proof -
    from shape that(1) have "approval_armed tid c' n st"
      by (rule approval_armedI)
    with that(2) show ?thesis
      by (simp add: approvalPollCallback_rejected polling_ended_with_def approval_armed_def)
  qed
  from within beyond thrown show ?thesis
    by (simp add: maxAttempts_eq)
qed

theorem approval_polling_ends_in_error_witness:
  "approval_armed 1 lace 30
     (approvalPolls 1 (replicate 30 (Resolved False)) answers_ok (startApprovalPolling lace idle_state)) \<and>
   polling_ended_with ''Connection timed out. Did you approve the request in the wallet?''
     (approvalPolls 1 (replicate 31 (Resolved False)) answers_ok (startApprovalPolling lace idle_state)) \<and>
   polling_ended_with ''An error occurred while checking wallet approval status.''
     (approvalPollCallback 1 (Rejected network_down) answers_ok awaiting_state)"
proof -
  have id1: "nextTimerId idle_state = 1"
    by (simp add: idle_state_eq initial_state_def)
  have live: "map_of (timers awaiting_state) 1 = Some (ApprovalPoll lace 0) \<and> 0 < maxAttempts"
    by (simp add: awaiting_state_eq maxAttempts_eq)
  have le: "30 \<le> maxAttempts" and less: "maxAttempts < 31"
    by (simp_all add: maxAttempts_eq)
  note within = approval_polling_ends_in_error
    [OF reachable_idle_state, of 30 answers_ok lace 1 lace 0 network_down]
  note beyond = approval_polling_ends_in_error
    [OF reachable_idle_state, of 31 answers_ok lace 1 lace 0 network_down]
  note thrown = approval_polling_ends_in_error
    [OF reachable_awaiting_state, of 31 answers_ok lace 1 lace 0 network_down]
  from within le have "approvalPolls (nextTimerId idle_state) (replicate 30 (Resolved False))
      answers_ok (startApprovalPolling lace idle_state) =
      (startApprovalPolling lace idle_state)
        \<lparr>timers := [(nextTimerId idle_state, ApprovalPoll lace 30)]\<rparr>"
    by blast
  then have "approval_armed 1 lace 30
     (approvalPolls 1 (replicate 30 (Resolved False)) answers_ok (startApprovalPolling lace idle_state))"
    unfolding id1 by (simp add: startApprovalPolling_eq approval_armed_def id1)
  moreover from beyond less have "polling_ended_with
     ''Connection timed out. Did you approve the request in the wallet?''
     (approvalPolls (nextTimerId idle_state) (replicate 31 (Resolved False)) answers_ok
        (startApprovalPolling lace idle_state))"
    by blast
  moreover from thrown live have "polling_ended_with
     ''An error occurred while checking wallet approval status.''
     (approvalPollCallback 1 (Rejected network_down) answers_ok awaiting_state)"
    by blast
  ultimately show ?thesis
    unfolding id1 by blast
qed

section \<open>Background polls\<close>

text \<open>
  Claim C6. A firing of the status poll in a reachable state, whose \<^verbatim>\<open>isEnabled()\<close>
  answers false or throws, is exactly \<^verbatim>\<open>disconnectWallet()\<close>: the handle, the wallet
  state, the service URIs and the wallet name are null, no interval is left and
  \<^verbatim>\<open>isConnecting\<close> is false. (The same holds when the connector has vanished.)
\<close>

theorem liveness_poll_failure_resets:
  assumes "reachable st" and "map_of (timers st) tid = Some StatusPoll"
    and "enabled_result \<noteq> Resolved True"
  shows "fully_reset (statusPollCallback tid getConnector enabled_result st) \<and>
         statusPollCallback tid getConnector enabled_result st = disconnectWallet st"
proof -
  from assms(1) have "remaining_timers st = []"
    by (simp add: reachable_timers_shape remaining_timers_shape)
  then have reset: "fully_reset (disconnectWallet st)"
    by (simp add: disconnectWallet_eq fully_reset_def)
  have "statusPollCallback tid getConnector enabled_result st = disconnectWallet st"
  proof (cases enabled_result)
    case (Resolved enabled)
    with assms(3) have "\<not> enabled" by simp
    with Resolved assms(2) show ?thesis
      by (simp add: statusPollCallback_def split: option.splits)
  next
    case (Rejected pollError)
    with assms(2) show ?thesis
      by (simp add: statusPollCallback_def split: option.splits)
  qed
  with reset show ?thesis by simp
qed

theorem liveness_poll_failure_resets_witness:
  "isConnected connected_state \<and>
   fully_reset (statusPollCallback 1 (Some lace) (Resolved False) connected_state) \<and>
   fully_reset (statusPollCallback 1 (Some lace) (Rejected network_down) connected_state)"
proof -
  have live: "map_of (timers connected_state) 1 = Some StatusPoll"
    by (simp add: connected_state_eq)
  have disabled: "Resolved False \<noteq> Resolved True"
    and thrown: "Rejected network_down \<noteq> Resolved True"
    by simp_all
  have "isConnected connected_state"
    by (simp add: connected_state_eq isConnected_def)
  moreover have "fully_reset (statusPollCallback 1 (Some lace) (Resolved False) connected_state)"
    using liveness_poll_failure_resets [OF reachable_connected_state live disabled, of "Some lace"]
    by (rule conjunct1)
  moreover have "fully_reset (statusPollCallback 1 (Some lace) (Rejected network_down) connected_state)"
    using liveness_poll_failure_resets [OF reachable_connected_state live thrown, of "Some lace"]
    by (rule conjunct1)
  ultimately show ?thesis by blast
qed

text \<open>
  Claim C7. A firing of the state poll compares the address returned by \<^verbatim>\<open>state()\<close>
  with the address of the wallet state its closure holds (the one of the render that armed
  it). When they differ the new state replaces \<^verbatim>\<open>walletState\<close> and nothing else
  changes; when they agree nothing changes at all. Either way the handle and the
  intervals stay. Only a throwing \<^verbatim>\<open>state()\<close> disconnects.
\<close>

theorem state_poll_updates_in_place:
  assumes "map_of (timers st) tid = Some (StatePoll api cached)"
  shows
    "(Some (address newState) \<noteq> map_option address cached \<longrightarrow>
        statePollCallback tid (Resolved newState) st = st\<lparr>walletState := Some newState\<rparr>) \<and>
     (Some (address newState) = map_option address cached \<longrightarrow>
        statePollCallback tid (Resolved newState) st = st) \<and>
     walletApi (statePollCallback tid (Resolved newState) st) = walletApi st \<and>
     timers (statePollCallback tid (Resolved newState) st) = timers st \<and>
     statePollCallback tid (Rejected pollError) st = disconnectWallet st"
  using assms by (simp add: statePollCallback_def)

theorem state_poll_updates_in_place_witness:
  "statePollCallback 2 (Resolved account2) connected_state =
     connected_state\<lparr>walletState := Some account2\<rparr> \<and>
   statePollCallback 2 (Resolved account1) connected_state = connected_state \<and>
   walletApi (statePollCallback 2 (Resolved account2) connected_state) = walletApi connected_state \<and>
   walletApi connected_state = Some (WalletAPI 1) \<and>
   statePollCallback 2 (Rejected network_down) connected_state = disconnectWallet connected_state \<and>
   walletApi (disconnectWallet connected_state) = None"
proof -
  have live: "map_of (timers connected_state) 2 = Some (StatePoll (WalletAPI 1) (Some account1))"
    by (simp add: connected_state_eq)
  note switched = state_poll_updates_in_place [OF live, of account2 network_down]
  note same = state_poll_updates_in_place [OF live, of account1 network_down]
  have differs: "Some (address account2) \<noteq> map_option address (Some account1)"
    by (simp add: account1_def account2_def)
  have equal: "Some (address account1) = map_option address (Some account1)"
    by simp
  have api: "walletApi connected_state = Some (WalletAPI 1)"
    by (simp add: connected_state_eq)
  have gone: "walletApi (disconnectWallet connected_state) = None"
    by (simp add: disconnectWallet_eq)
  from switched same differs equal api gone show ?thesis
    by blast
qed

section \<open>A full success leaves no message behind\<close>

lemma connectWallet_resolved:
  assumes "\<not> isConnecting rendered" "\<not> isConnected rendered"
    and "enable_result r = Resolved api" "state_result r = Resolved ws"
    "serviceUriConfig_result r = Resolved u"
  shows "connectWallet rendered (Some c) r st =
     st\<lparr>timers := remaining_timers st, statusPollIntervalRef := None,
        statePollIntervalRef := None, approvalPollIntervalRef := None,
        walletApi := Some api, walletName := Some (name c), walletState := Some ws,
        serviceUris := Some u, error := None, infoMessage := None, isConnecting := False\<rparr>"
  using assms
  by (simp add: connectWallet_def clearAllIntervals_eq establishConnection_resolved)

lemma approvalPollCallback_resolved:
  assumes "map_of (timers st) tid = Some (ApprovalPoll c n)" "n < maxAttempts"
    and "enable_result r = Resolved api" "state_result r = Resolved ws"
    "serviceUriConfig_result r = Resolved u"
  shows "approvalPollCallback tid (Resolved True) r st =
     st\<lparr>timers := remaining_timers (countAttempt tid st),
        statusPollIntervalRef := None,
        statePollIntervalRef := None, approvalPollIntervalRef := None,
        walletApi := Some api, walletName := Some (name c), walletState := Some ws,
        serviceUris := Some u, error := None, infoMessage := None, isConnecting := False\<rparr>"
  using assms
  by (simp add: approvalPollCallback_def Let_def clearAllIntervals_eq
      establishConnection_resolved countAttempt_def)

lemma initialLoadCheck_resolved:
  assumes "enable_result r = Resolved api" "state_result r = Resolved ws"
    "serviceUriConfig_result r = Resolved u"
  shows "initialLoadCheck (Some c) (Resolved True) r st =
     st\<lparr>walletApi := Some api, walletName := Some (name c), walletState := Some ws,
        serviceUris := Some u, error := None, infoMessage := None, isCheckingStatus := False\<rparr>"
  using assms
  by (simp add: initialLoadCheck_def establishConnection_resolved)

text \<open>
  Claim C10. When \<^verbatim>\<open>enable()\<close>, \<^verbatim>\<open>state()\<close> and \<^verbatim>\<open>serviceUriConfig()\<close> all resolve,
  \<^verbatim>\<open>_establishConnection\<close> returns true with \<^verbatim>\<open>error\<close> and \<^verbatim>\<open>infoMessage\<close> null,
  whatever they were before; and so does each of its three callers: a manual connect
  that passes the guard, an approval poll that sees the wallet enabled, and the initial
  check.
\<close>

theorem full_success_clears_messages:
  assumes "enable_result r = Resolved api" and "state_result r = Resolved ws"
    and "serviceUriConfig_result r = Resolved u"
  shows
    "establishConnection c i r st =
       (True, st\<lparr>walletApi := Some api, walletName := Some (name c), walletState := Some ws,
                 serviceUris := Some u, error := None, infoMessage := None\<rparr>) \<and>
     (\<not> isConnecting rendered \<and> \<not> isConnected rendered \<longrightarrow>
        walletApi (connectWallet rendered (Some c) r st) = Some api \<and>
        error (connectWallet rendered (Some c) r st) = None \<and>
        infoMessage (connectWallet rendered (Some c) r st) = None) \<and>
     (map_of (timers st) tid = Some (ApprovalPoll c n) \<and> n < maxAttempts \<longrightarrow>
        walletApi (approvalPollCallback tid (Resolved True) r st) = Some api \<and>
        error (approvalPollCallback tid (Resolved True) r st) = None \<and>
        infoMessage (approvalPollCallback tid (Resolved True) r st) = None) \<and>
     walletApi (initialLoadCheck (Some c) (Resolved True) r st) = Some api \<and>
     error (initialLoadCheck (Some c) (Resolved True) r st) = None \<and>
     infoMessage (initialLoadCheck (Some c) (Resolved True) r st) = None"
  using assms
  by (simp add: establishConnection_resolved connectWallet_resolved
      approvalPollCallback_resolved initialLoadCheck_resolved)

theorem full_success_clears_messages_witness:
  "error not_found_state = Some ''Wallet connector 'mnLace' not found.'' \<and>
   walletApi (connectWallet not_found_state (Some lace) answers_ok not_found_state) =
     Some (WalletAPI 1) \<and>
   error (connectWallet not_found_state (Some lace) answers_ok not_found_state) = None \<and>
   infoMessage (connectWallet not_found_state (Some lace) answers_ok not_found_state) = None \<and>
   infoMessage awaiting_state \<noteq> None \<and>
   walletApi (approvalPollCallback 1 (Resolved True) answers_ok awaiting_state) =
     Some (WalletAPI 1) \<and>
   error (approvalPollCallback 1 (Resolved True) answers_ok awaiting_state) = None \<and>
   infoMessage (approvalPollCallback 1 (Resolved True) answers_ok awaiting_state) = None"
proof -
  have r: "enable_result answers_ok = Resolved (WalletAPI 1)"
    "state_result answers_ok = Resolved account1"
    "serviceUriConfig_result answers_ok = Resolved uris1"
    by (simp_all add: answers_ok_def)
  have nf: "not_found_state =
      idle_state\<lparr>error := Some ''Wallet connector 'mnLace' not found.''\<rparr>"
    by (simp add: not_found_state_def connectWallet_def idle_state_eq initial_state_def
        isConnected_def clearAllIntervals_eq remaining_timers_def targetWalletName_def)
  have free: "\<not> isConnecting not_found_state \<and> \<not> isConnected not_found_state"
    by (simp add: nf idle_state_eq initial_state_def isConnected_def)
  have live: "map_of (timers awaiting_state) 1 = Some (ApprovalPoll lace 0) \<and> 0 < maxAttempts"
    by (simp add: awaiting_state_eq maxAttempts_eq)
  have shown: "error not_found_state = Some ''Wallet connector 'mnLace' not found.''"
    by (simp add: nf)
  have info: "infoMessage awaiting_state \<noteq> None"
    by (simp add: awaiting_state_eq)
  from full_success_clears_messages [OF r, of lace False not_found_state not_found_state 1 0]
    full_success_clears_messages [OF r, of lace False awaiting_state not_found_state 1 0]
    free live shown info
  show ?thesis by blast
qed

section \<open>The attempt after approval is detected\<close>

text \<open>
  Waiting for approval, the poll sees the wallet enabled, and \<^verbatim>\<open>enable()\<close> answers
  with the approval-pending code once more: the attempt fails and no error is set.
\<close>

theorem approval_rerun_pending_again_counterexample:
  "map_of (timers awaiting_state) 1 = Some (ApprovalPoll lace 0) \<and>
   enable_result answers_pending = Rejected approval_pending \<and>
   fst (establishConnection lace False answers_pending awaiting_state) = False \<and>
   error (approvalPollCallback 1 (Resolved True) answers_pending awaiting_state) = None \<and>
   walletApi (approvalPollCallback 1 (Resolved True) answers_pending awaiting_state) = None \<and>
   isConnecting (approvalPollCallback 1 (Resolved True) answers_pending awaiting_state) = False"
proof -
  have armed: "approval_armed 1 lace 0 awaiting_state"
    by (simp add: awaiting_state_eq approval_armed_def)
  have rej: "enable_result answers_pending = Rejected approval_pending"
    by (simp add: answers_pending_def answers_ok_def)
  have pending: "isApprovalError (code approval_pending) (connection_error_msg approval_pending)"
    by (simp add: isApprovalError_def approval_pending_def)
  have before: "error awaiting_state = None" "map_of (timers awaiting_state) 1 = Some (ApprovalPoll lace 0)"
    by (simp_all add: awaiting_state_eq)
  have run: "approvalPollCallback 1 (Resolved True) answers_pending awaiting_state =
     (snd (establishConnection lace False answers_pending
        (awaiting_state\<lparr>timers := [], statusPollIntervalRef := None, statePollIntervalRef := None,
            approvalPollIntervalRef := None,
            infoMessage := Some ''Approval detected. Finalizing connection...''\<rparr>)))
       \<lparr>infoMessage := None, isConnecting := False\<rparr>"
    using armed by (rule approvalPollCallback_enabled) (simp add: maxAttempts_eq)
  show ?thesis
    unfolding run establishConnection_rejected [OF rej]
    using pending before rej by simp
qed

text \<open>
  Claim C4, amended. A firing of the approval poll, before the bound, that sees
  \<^verbatim>\<open>isEnabled()\<close> true stops all intervals and runs \<^verbatim>\<open>_establishConnection\<close> again.
  When the attempt succeeds the provider is connected: handle, wallet state and service
  URIs set, no error, no info message, \<^verbatim>\<open>isConnecting\<close> false. When \<^verbatim>\<open>enable()\<close>
  fails with anything but the approval-pending signal, the handle is null and the
  error is the connection failure message; when the detail fetch fails the error is set
  as well. When \<^verbatim>\<open>enable()\<close> fails with the approval-pending signal again no error is
  set: the handle is null, the error is what it was, the info message is null and
  \<^verbatim>\<open>isConnecting\<close> is false.
\<close>

theorem approval_detected_rerun:
  assumes "reachable st" and "map_of (timers st) tid = Some (ApprovalPoll c n)"
    and "n < maxAttempts"
  shows
    "timers (approvalPollCallback tid (Resolved True) r st) = [] \<and>
     infoMessage (approvalPollCallback tid (Resolved True) r st) = None \<and>
     \<not> isConnecting (approvalPollCallback tid (Resolved True) r st) \<and>
     (enable_result r = Resolved api \<and> state_result r = Resolved ws \<and>
      serviceUriConfig_result r = Resolved u \<longrightarrow>
        walletApi (approvalPollCallback tid (Resolved True) r st) = Some api \<and>
        walletState (approvalPollCallback tid (Resolved True) r st) = Some ws \<and>
        serviceUris (approvalPollCallback tid (Resolved True) r st) = Some u \<and>
        error (approvalPollCallback tid (Resolved True) r st) = None) \<and>
     (enable_result r = Rejected err \<and>
      \<not> isApprovalError (code err) (connection_error_msg err) \<longrightarrow>
        walletApi (approvalPollCallback tid (Resolved True) r st) = None \<and>
        error (approvalPollCallback tid (Resolved True) r st) =
          Some (connection_failed_text (connection_error_msg err) (code err))) \<and>
     (enable_result r = Resolved api \<and>
      promise_all2 (state_result r) (serviceUriConfig_result r) = Rejected e \<longrightarrow>
        error (approvalPollCallback tid (Resolved True) r st) =
          Some ''Connected, but failed to fetch wallet details.'') \<and>
     (enable_result r = Rejected err \<and>
      isApprovalError (code err) (connection_error_msg err) \<longrightarrow>
        walletApi (approvalPollCallback tid (Resolved True) r st) = None \<and>
        error (approvalPollCallback tid (Resolved True) r st) = error st)"
proof -
  from assms(1) have "timers_shape st"
    by (rule reachable_timers_shape)
  from this assms(2) have armed: "approval_armed tid c n st"
    by (rule approval_armedI)
  from assms(3) have bound: "Suc n \<le> maxAttempts"
    by simp
  note run = approvalPollCallback_enabled [OF armed bound]
  show ?thesis
    by (cases r rule: establishConnection_cases)
       (simp_all add: run establishConnection_resolved establishConnection_details_failed
          establishConnection_rejected)
qed

theorem approval_detected_rerun_witness:
  "walletApi (approvalPollCallback 1 (Resolved True) answers_ok awaiting_state) =
     Some (WalletAPI 1) \<and>
   error (approvalPollCallback 1 (Resolved True) answers_ok awaiting_state) = None \<and>
   error (approvalPollCallback 1 (Resolved True) answers_refused awaiting_state) =
     Some ''Connection failed: User rejected'' \<and>
   error (approvalPollCallback 1 (Resolved True) answers_pending awaiting_state) = None \<and>
   walletApi (approvalPollCallback 1 (Resolved True) answers_pending awaiting_state) = None \<and>
   timers (approvalPollCallback 1 (Resolved True) answers_pending awaiting_state) = []"
proof -
  have live: "map_of (timers awaiting_state) 1 = Some (ApprovalPoll lace 0)"
    by (simp add: awaiting_state_eq)
  have bound: "0 < maxAttempts"
    by (simp add: maxAttempts_eq)
  note run = approval_detected_rerun [OF reachable_awaiting_state live bound]
  have ok: "enable_result answers_ok = Resolved (WalletAPI 1) \<and>
      state_result answers_ok = Resolved account1 \<and>
      serviceUriConfig_result answers_ok = Resolved uris1"
    by (simp add: answers_ok_def)
  have refused: "enable_result answers_refused = Rejected user_refused \<and>
      \<not> isApprovalError (code user_refused) (connection_error_msg user_refused)"
    by (simp add: answers_refused_def answers_ok_def isApprovalError_def user_refused_def
        connection_error_msg_def)
  have shown: "connection_failed_text (connection_error_msg user_refused) (code user_refused) =
      ''Connection failed: User rejected''"
    by (simp add: connection_failed_text_def connection_error_msg_def user_refused_def)
  have pending: "enable_result answers_pending = Rejected approval_pending \<and>
      isApprovalError (code approval_pending) (connection_error_msg approval_pending)"
    by (simp add: answers_pending_def answers_ok_def isApprovalError_def approval_pending_def)
  have before: "error awaiting_state = None"
    by (simp add: awaiting_state_eq)
  from run [of answers_ok "WalletAPI 1" account1 uris1 user_refused network_down] ok
  have a: "walletApi (approvalPollCallback 1 (Resolved True) answers_ok awaiting_state) =
       Some (WalletAPI 1) \<and>
     error (approvalPollCallback 1 (Resolved True) answers_ok awaiting_state) = None"
    by blast
  from run [of answers_refused "WalletAPI 1" account1 uris1 user_refused network_down] refused
  have b: "error (approvalPollCallback 1 (Resolved True) answers_refused awaiting_state) =
      Some (connection_failed_text (connection_error_msg user_refused) (code user_refused))"
    by blast
  from run [of answers_pending "WalletAPI 1" account1 uris1 approval_pending network_down] pending
  have c: "error (approvalPollCallback 1 (Resolved True) answers_pending awaiting_state) =
       error awaiting_state \<and>
     walletApi (approvalPollCallback 1 (Resolved True) answers_pending awaiting_state) = None \<and>
     timers (approvalPollCallback 1 (Resolved True) answers_pending awaiting_state) = []"
    by blast
  from a b c show ?thesis
    unfolding shown before by blast
qed

section \<open>The initial check\<close>

lemma establishConnection_alt_error:
  "error (snd (establishConnection_alt c True r st)) = None"
  by (simp add: establishConnection_alt_def Let_def
      split: promise_result.splits prod.splits)

text \<open>
  In the version without approval polling, a throwing \<^verbatim>\<open>isEnabled()\<close> during the
  initial check puts a message into the error field.
\<close>

theorem initial_check_reports_failed_status_counterexample:
  "error initial_state = None \<and>
   error (initialLoadCheck_alt (Some lace) (Rejected network_down) answers_ok initial_state) =
     Some ''Could not check initial wallet status.''"
  by (simp add: initialLoadCheck_alt_def Let_def initial_state_def)

text \<open>
  What the provider with approval polling does when the details cannot be fetched
  during the initial check: \<^verbatim>\<open>_fetchDetails\<close> sets the error whoever called.
\<close>

lemma initial_check_details_failure_sets_error:
  "error (initialLoadCheck (Some lace) (Resolved True) answers_no_details initial_state) =
     Some ''Connected, but failed to fetch wallet details.''"
  by (simp add: initialLoadCheck_def Let_def establishConnection_def fetchDetails_def
      answers_no_details_def answers_ok_def)

text \<open>
  Claim C3, amended. The initial check leaves the error as it is when \<^verbatim>\<open>isEnabled()\<close>
  answers false and when \<^verbatim>\<open>enable()\<close> fails, with any code, the approval-pending one
  included: this holds in both versions of the provider (the version without approval
  polling, started with no error, ends with no error whatever the attempt does). When
  \<^verbatim>\<open>isEnabled()\<close> throws, the provider with approval polling stays silent, and the
  version without it reports that the status could not be checked.
\<close>

theorem initial_check_silent_cases:
  "error (initialLoadCheck getConnector (Rejected e) r st) = error st \<and>
   error (initialLoadCheck getConnector (Resolved False) r st) = error st \<and>
   (enable_result r = Rejected err \<longrightarrow>
      error (initialLoadCheck getConnector enabled_result r st) = error st) \<and>
   (error st = None \<longrightarrow>
      error (initialLoadCheck_alt getConnector (Resolved enabled) r st) = None) \<and>
   error (initialLoadCheck_alt (Some c) (Rejected e) r st) =
     Some ''Could not check initial wallet status.''"
proof -
  have thrown: "error (initialLoadCheck getConnector (Rejected e) r st) = error st"
    by (simp add: initialLoadCheck_def Let_def split: option.splits)
  have disabled: "error (initialLoadCheck getConnector (Resolved False) r st) = error st"
    by (simp add: initialLoadCheck_def Let_def split: option.splits)
  have refused: "error (initialLoadCheck getConnector enabled_result r st) = error st"
    if "enable_result r = Rejected err"
    using that
    by (simp add: initialLoadCheck_def Let_def establishConnection_rejected
        split: option.splits promise_result.splits)
  have alt: "error (initialLoadCheck_alt getConnector (Resolved enabled) r st) = None"
    if "error st = None"
    using that
    by (simp add: initialLoadCheck_alt_def Let_def establishConnection_alt_error split: option.splits)
  have alt_thrown: "error (initialLoadCheck_alt (Some c) (Rejected e) r st) =
      Some ''Could not check initial wallet status.''"
    by (simp add: initialLoadCheck_alt_def Let_def)
  from thrown disabled refused alt alt_thrown show ?thesis
    by blast
qed

theorem initial_check_silent_cases_witness:
  "error (initialLoadCheck (Some lace) (Rejected network_down) answers_ok initial_state) = None \<and>
   error (initialLoadCheck (Some lace) (Resolved True) answers_pending initial_state) = None \<and>
   error (initialLoadCheck (Some lace) (Resolved True) answers_refused initial_state) = None \<and>
   error (initialLoadCheck_alt (Some lace) (Resolved True) answers_refused initial_state) = None \<and>
   error (initialLoadCheck_alt (Some lace) (Resolved True) answers_no_details initial_state) = None"
proof -
  have start: "error initial_state = None"
    by (simp add: initial_state_def)
  have pending: "enable_result answers_pending = Rejected approval_pending"
    and refused: "enable_result answers_refused = Rejected user_refused"
    by (simp_all add: answers_pending_def answers_refused_def answers_ok_def)
  from initial_check_silent_cases
      [of "Some lace" network_down answers_ok initial_state network_down "Resolved True" True lace]
    initial_check_silent_cases
      [of "Some lace" network_down answers_pending initial_state approval_pending "Resolved True" True lace]
    initial_check_silent_cases
      [of "Some lace" network_down answers_refused initial_state user_refused "Resolved True" True lace]
    initial_check_silent_cases
      [of "Some lace" network_down answers_no_details initial_state user_refused "Resolved True" True lace]
    start pending refused
  show ?thesis
    by metis
qed

section \<open>Where the provider departs from its description\<close>

text \<open>
  Claim C1. A manual connect from the idle state, with \<^verbatim>\<open>enable()\<close> resolving and
  \<^verbatim>\<open>state()\<close> rejecting: \<^verbatim>\<open>_fetchDetails\<close> sets the error and nulls the wallet state
  and the service URIs, but nobody takes back \<^verbatim>\<open>setWalletApi(enabledApi)\<close>. The handle
  stays, so \<^verbatim>\<open>isConnected\<close> is true next to the error.
\<close>

theorem handle_kept_when_details_fail:
  "walletApi (connectWallet idle_state (Some lace) answers_no_details idle_state) =
     Some (WalletAPI 1) \<and>
   isConnected (connectWallet idle_state (Some lace) answers_no_details idle_state) \<and>
   error (connectWallet idle_state (Some lace) answers_no_details idle_state) =
     Some ''Connected, but failed to fetch wallet details.'' \<and>
   walletState (connectWallet idle_state (Some lace) answers_no_details idle_state) = None \<and>
   serviceUris (connectWallet idle_state (Some lace) answers_no_details idle_state) = None"
proof -
  have en: "enable_result answers_no_details = Resolved (WalletAPI 1)"
    by (simp add: answers_no_details_def answers_ok_def)
  have det: "promise_all2 (state_result answers_no_details)
      (serviceUriConfig_result answers_no_details) = Rejected network_down"
    by (simp add: answers_no_details_def answers_ok_def)
  show ?thesis
    by (simp add: connectWallet_def idle_state_eq initial_state_def isConnected_def
        clearAllIntervals_eq remaining_timers_def startApprovalPolling_eq
        establishConnection_details_failed [OF en det])
qed

text \<open>
  Claim C2. \<^verbatim>\<open>connectWallet\<close> decides between approval polling and giving up by
  \<^verbatim>\<open>!success && !error\<close>, where \<^verbatim>\<open>error\<close> is the constant of the render the callback was
  created in, not what \<^verbatim>\<open>_establishConnection\<close> has just set. From the idle state (no
  error on screen) a refused \<^verbatim>\<open>enable()\<close> sets the connection failure message and
  starts approval polling all the same. From a state that shows an error, an
  approval-pending \<^verbatim>\<open>enable()\<close> starts no polling at all.
\<close>

theorem stale_error_decides_polling:
  "error idle_state = None \<and>
   \<not> isApprovalError (code user_refused) (connection_error_msg user_refused) \<and>
   error (connectWallet idle_state (Some lace) answers_refused idle_state) =
     Some ''Connection failed: User rejected'' \<and>
   timers (connectWallet idle_state (Some lace) answers_refused idle_state) =
     [(1, ApprovalPoll lace 0)] \<and>
   approvalPollIntervalRef (connectWallet idle_state (Some lace) answers_refused idle_state) =
     Some 1 \<and>
   isConnecting (connectWallet idle_state (Some lace) answers_refused idle_state) \<and>
   error not_found_state = Some ''Wallet connector 'mnLace' not found.'' \<and>
   isApprovalError (code approval_pending) (connection_error_msg approval_pending) \<and>
   timers (connectWallet not_found_state (Some lace) answers_pending not_found_state) = [] \<and>
   approvalPollIntervalRef
     (connectWallet not_found_state (Some lace) answers_pending not_found_state) = None \<and>
   infoMessage (connectWallet not_found_state (Some lace) answers_pending not_found_state) =
     None \<and>
   isConnecting (connectWallet not_found_state (Some lace) answers_pending not_found_state) =
     False"
proof -
  have refused: "enable_result answers_refused = Rejected user_refused"
    and pending: "enable_result answers_pending = Rejected approval_pending"
    by (simp_all add: answers_refused_def answers_pending_def answers_ok_def)
  have nf: "not_found_state =
      idle_state\<lparr>error := Some ''Wallet connector 'mnLace' not found.''\<rparr>"
    by (simp add: not_found_state_def connectWallet_def idle_state_eq initial_state_def
        isConnected_def clearAllIntervals_eq remaining_timers_def targetWalletName_def)
  have kinds: "\<not> isApprovalError (code user_refused) (connection_error_msg user_refused)"
    "isApprovalError (code approval_pending) (connection_error_msg approval_pending)"
    "connection_failed_text (connection_error_msg user_refused) (code user_refused) =
       ''Connection failed: User rejected''"
    by (simp_all add: isApprovalError_def user_refused_def approval_pending_def
        connection_error_msg_def connection_failed_text_def)
  show ?thesis
    by (simp add: kinds nf connectWallet_def idle_state_eq initial_state_def isConnected_def
        clearAllIntervals_eq remaining_timers_def startApprovalPolling_eq
        establishConnection_rejected [OF refused] establishConnection_rejected [OF pending])
qed

end
